theory Spec2Isabelle
  imports Main
begin

section \<open>The prompt relay of \<^verbatim>\<open>src/model/app.py\<close>\<close>

text \<open>
  The module reads two environment variables, initialises the Vertex AI client library and
  registers one route, \<^verbatim>\<open>POST /generate-video\<close>, whose handler \<^verbatim>\<open>generate\<close> builds an
  endpoint name, asks the library for a prediction and returns its first element.
  Invocations are modelled one after the other; the interleaving of concurrent requests is
  not part of the model.

  The client library (\<^verbatim>\<open>google.cloud.aiplatform\<close>) and the web framework are not part of the
  repository. The library is a parameter of the model: a record of the three operations the
  module calls, each of which may raise and may change the state of the outside world.
\<close>

subsection \<open>Values\<close>

text \<open>
  Python values that cross the boundary of the handler: the instances sent to the library,
  the predictions it returns and the dictionary the handler returns. A dictionary is an
  association list in insertion order.
\<close>

datatype json =
    JNull
  | JBool bool
  | JNum int
  | JStr string
  | JArr "json list"
  | JObj "(string \<times> json) list"

text \<open>
  Exceptions. \<open>IndexError\<close> is what Python raises for \<^verbatim>\<open>xs[0]\<close> on an empty list and for a
  format string with more fields than arguments; \<open>LibraryError\<close> stands for whatever the
  client library raises, with its message.
\<close>

datatype exn = IndexError | LibraryError string

text \<open>The value of \<^verbatim>\<open>endpoint.predict(...)\<close>: the handler reads its attribute \<^verbatim>\<open>predictions\<close>.\<close>

record prediction =
  predictions :: "json list"

subsection \<open>The environment and the client library\<close>

type_synonym environ = "string \<rightharpoonup> string"

text \<open>\<^verbatim>\<open>os.getenv(key)\<close>: the value of the variable, \<^verbatim>\<open>None\<close> when it is not set.\<close>

definition getenv :: "environ \<Rightarrow> string \<Rightarrow> string option" where
  "getenv environ key = environ key"

text \<open>
  The operations of \<^verbatim>\<open>aiplatform\<close> used by the module, over a state \<open>'w\<close> of the outside world
  (the library's own globals and the remote service) and a type \<open>'ep\<close> of endpoint objects:
  \<^verbatim>\<open>aiplatform.init(project=..., location=...)\<close>, the constructor \<^verbatim>\<open>aiplatform.Endpoint(name)\<close>
  and the method \<^verbatim>\<open>endpoint.predict(instances=...)\<close>. Each returns \<open>Inl e\<close> when it raises \<open>e\<close>.
\<close>

record ('w, 'ep) aiplatform =
  init :: "string option \<Rightarrow> string option \<Rightarrow> 'w \<Rightarrow> (exn + unit) \<times> 'w"
  Endpoint :: "string \<Rightarrow> 'w \<Rightarrow> (exn + 'ep) \<times> 'w"
  predict :: "'ep \<Rightarrow> json list \<Rightarrow> 'w \<Rightarrow> (exn + prediction) \<times> 'w"

subsection \<open>String formatting\<close>

text \<open>\<^verbatim>\<open>str(x)\<close> for an argument of \<^verbatim>\<open>format\<close> that is a string or \<^verbatim>\<open>None\<close>.\<close>

definition str_py :: "string option \<Rightarrow> string" where
  "str_py x = (case x of None \<Rightarrow> ''None'' | Some s \<Rightarrow> s)"

text \<open>
  \<^verbatim>\<open>template.format(*args)\<close> for templates whose only braces are automatic fields \<^verbatim>\<open>{}\<close>, which
  is the case of the one template of the module: each field is replaced by the next
  argument, which is not scanned again; a field with no argument left raises \<open>IndexError\<close>;
  surplus arguments are ignored.
\<close>

fun format_py :: "string \<Rightarrow> string list \<Rightarrow> exn + string" where
  "format_py [] args = Inr []"
| "format_py [c] args = Inr [c]"
| "format_py (c # d # cs) args =
     (if c = CHR ''{'' \<and> d = CHR ''}''
      then (case args of
              [] \<Rightarrow> Inl IndexError
            | a # rest \<Rightarrow> (case format_py cs rest of Inl e \<Rightarrow> Inl e | Inr t \<Rightarrow> Inr (a @ t)))
      else (case format_py (d # cs) args of Inl e \<Rightarrow> Inl e | Inr t \<Rightarrow> Inr (c # t)))"

subsection \<open>Module state and start-up\<close>

text \<open>
  The state of the process: the module-level names \<^verbatim>\<open>PROJECT_ID\<close> and \<^verbatim>\<open>REGION\<close>, the routes
  of \<^verbatim>\<open>app\<close> in the order of their registration (each a path with its set of methods), and
  the state of the outside world.
\<close>

record 'w state =
  PROJECT_ID :: "string option"
  REGION :: "string option"
  routes :: "(string \<times> string set) list"
  world :: 'w

text \<open>
  The routes of a fresh \<^verbatim>\<open>FastAPI()\<close>, line 5: with its default arguments the constructor of
  the framework registers the schema and the two documentation pages with the redirect of
  the first, each for \<^verbatim>\<open>GET\<close> and \<^verbatim>\<open>HEAD\<close>. This is the framework's behaviour, not code of the
  repository.
\<close>

definition FastAPI_routes :: "(string \<times> string set) list" where
  "FastAPI_routes =
     [(''/openapi.json'', {''GET'', ''HEAD''}),
      (''/docs'', {''GET'', ''HEAD''}),
      (''/docs/oauth2-redirect'', {''GET'', ''HEAD''}),
      (''/redoc'', {''GET'', ''HEAD''})]"

text \<open>
  The module body, run once when the process starts: lines 5 to 11 of the source. A raise of
  \<^verbatim>\<open>aiplatform.init\<close> aborts the import, and then there is no application to serve. The
  decorator of line 11 adds the route of the handler after those of the framework.
\<close>

definition startup :: "environ \<Rightarrow> ('w, 'ep) aiplatform \<Rightarrow> 'w \<Rightarrow> exn + 'w state" where
  "startup environ aip w =
     (let project = getenv environ ''GCP_PROJECT_ID'';
          region = getenv environ ''GCP_REGION''
      in case init aip project region w of
           (Inl e, w') \<Rightarrow> Inl e
         | (Inr u, w') \<Rightarrow>
             Inr \<lparr>PROJECT_ID = project, REGION = region,
                  routes = FastAPI_routes @ [(''/generate-video'', {''POST''})],
                  world = w'\<rparr>)"

subsection \<open>The handler\<close>

text \<open>The argument of \<^verbatim>\<open>aiplatform.Endpoint(...)\<close>, lines 14 to 16.\<close>

definition endpoint_name :: "'w state \<Rightarrow> exn + string" where
  "endpoint_name s =
     format_py ''projects/{}/locations/{}/endpoints/{}''
       [str_py (PROJECT_ID s), str_py (REGION s), ''your-endpoint-id'']"

text \<open>The argument of \<^verbatim>\<open>predict(instances=...)\<close>, line 18: \<^verbatim>\<open>[{"prompt": prompt}]\<close>.\<close>

definition instances :: "string \<Rightarrow> json list" where
  "instances prompt = [JObj [(''prompt'', JStr prompt)]]"

text \<open>
  \<^verbatim>\<open>generate(prompt)\<close>, lines 12 to 19. Nothing is caught: an exception of the constructor or
  of \<^verbatim>\<open>predict\<close> leaves the handler as it is, and \<^verbatim>\<open>predictions[0]\<close> raises \<open>IndexError\<close> on an
  empty list. The handler assigns to no module-level name; only the outside world moves.
\<close>

definition generate ::
  "('w, 'ep) aiplatform \<Rightarrow> string \<Rightarrow> 'w state \<Rightarrow> (exn + json) \<times> 'w state" where
  "generate aip prompt s =
     (case endpoint_name s of
        Inl e \<Rightarrow> (Inl e, s)
      | Inr name \<Rightarrow>
          (case Endpoint aip name (world s) of
             (Inl e, w1) \<Rightarrow> (Inl e, s\<lparr>world := w1\<rparr>)
           | (Inr endpoint, w1) \<Rightarrow>
               (case predict aip endpoint (instances prompt) w1 of
                  (Inl e, w2) \<Rightarrow> (Inl e, s\<lparr>world := w2\<rparr>)
                | (Inr response, w2) \<Rightarrow>
                    (case predictions response of
                       [] \<Rightarrow> (Inl IndexError, s\<lparr>world := w2\<rparr>)
                     | p # ps \<Rightarrow> (Inr (JObj [(''video_url'', p)]), s\<lparr>world := w2\<rparr>)))))"

subsection \<open>The route\<close>

text \<open>
  \<^verbatim>\<open>@app.post("/generate-video")\<close>, line 11, hands the handler to the web framework. What the
  framework does with the handler's outcome is its documented behaviour, not code of the
  repository: a returned dictionary is sent as the JSON body of a 200 response; an exception
  that leaves the handler is answered with 500 and the text \<^verbatim>\<open>Internal Server Error\<close>, and the
  process goes on serving from the state the handler left.
\<close>

record http_response =
  status :: nat
  body :: json

definition post_generate_video ::
  "('w, 'ep) aiplatform \<Rightarrow> string \<Rightarrow> 'w state \<Rightarrow> http_response \<times> 'w state" where
  "post_generate_video aip prompt s =
     (case generate aip prompt s of
        (Inr v, s') \<Rightarrow> (\<lparr>status = 200, body = v\<rparr>, s')
      | (Inl e, s') \<Rightarrow> (\<lparr>status = 500, body = JStr ''Internal Server Error''\<rparr>, s'))"

text \<open>
  The states of a running service: the one start-up leaves, then any number of requests,
  between which the outside world may move on its own.
\<close>

inductive reachable ::
  "environ \<Rightarrow> ('w, 'ep) aiplatform \<Rightarrow> 'w \<Rightarrow> 'w state \<Rightarrow> bool"
  for environ :: environ and aip :: "('w, 'ep) aiplatform" and w0 :: 'w where
  started: "startup environ aip w0 = Inr s \<Longrightarrow> reachable environ aip w0 s"
| served: "reachable environ aip w0 s \<Longrightarrow> post_generate_video aip prompt s = (r, s')
     \<Longrightarrow> reachable environ aip w0 s'"
| outside: "reachable environ aip w0 s \<Longrightarrow> reachable environ aip w0 (s\<lparr>world := w\<rparr>)"

subsection \<open>Recording the calls of the library\<close>

text \<open>
  A recording stub: the library wrapped so that every call is appended to a log kept beside
  the state of the outside world, with the arguments the module passed.
\<close>

datatype 'ep event =
    InitCall "string option" "string option"
  | EndpointCall string
  | PredictCall 'ep "json list"

definition recording ::
  "('w, 'ep) aiplatform \<Rightarrow> ('w \<times> 'ep event list, 'ep) aiplatform" where
  "recording aip =
     \<lparr>init = (\<lambda>project location (w, log).
               case init aip project location w of
                 (r, w') \<Rightarrow> (r, (w', log @ [InitCall project location]))),
      Endpoint = (\<lambda>name (w, log).
               case Endpoint aip name w of
                 (r, w') \<Rightarrow> (r, (w', log @ [EndpointCall name]))),
      predict = (\<lambda>endpoint xs (w, log).
               case predict aip endpoint xs w of
                 (r, w') \<Rightarrow> (r, (w', log @ [PredictCall endpoint xs])))\<rparr>"

text \<open>A state whose outside world carries a log, and the log of a state.\<close>

definition with_log :: "'w state \<Rightarrow> 'ep event list \<Rightarrow> ('w \<times> 'ep event list) state" where
  "with_log s log =
     \<lparr>PROJECT_ID = PROJECT_ID s, REGION = REGION s, routes = routes s,
      world = (world s, log)\<rparr>"

definition log_of :: "('w \<times> 'ep event list) state \<Rightarrow> 'ep event list" where
  "log_of s = snd (world s)"

text \<open>The calls one invocation of the handler makes from state \<open>s\<close>, in order.\<close>

definition trace :: "('w, 'ep) aiplatform \<Rightarrow> string \<Rightarrow> 'w state \<Rightarrow> 'ep event list" where
  "trace aip prompt s = log_of (snd (generate (recording aip) prompt (with_log s [])))"

text \<open>The payloads of the predict calls of a log, and the names given to the constructor.\<close>

fun payloads :: "'ep event list \<Rightarrow> json list list" where
  "payloads [] = []"
| "payloads (PredictCall endpoint xs # evs) = xs # payloads evs"
| "payloads (ev # evs) = payloads evs"

fun endpoint_names :: "'ep event list \<Rightarrow> string list" where
  "endpoint_names [] = []"
| "endpoint_names (EndpointCall name # evs) = name # endpoint_names evs"
| "endpoint_names (ev # evs) = endpoint_names evs"

subsection \<open>The endpoint reference of the specification\<close>

text \<open>
  The form the specification gives:
  \<^verbatim>\<open>projects/{project}/locations/{region}/endpoints/{endpoint_id}\<close>.
\<close>

definition endpoint_reference :: "string \<Rightarrow> string \<Rightarrow> string \<Rightarrow> string" where
  "endpoint_reference project region endpoint_id =
     ''projects/'' @ project @ ''/locations/'' @ region @ ''/endpoints/'' @ endpoint_id"

subsection \<open>Stub libraries\<close>

text \<open>
  Libraries for concrete runs, over a world with nothing in it and with the name as the
  endpoint object: one that answers every predict call with the same predictions, one that
  answers with the instances it was sent, one whose predict raises, and one whose
  constructor raises.
\<close>

definition stub :: "json list \<Rightarrow> (unit, string) aiplatform" where
  "stub ps =
     \<lparr>init = (\<lambda>project location w. (Inr (), w)),
      Endpoint = (\<lambda>name w. (Inr name, w)),
      predict = (\<lambda>endpoint xs w. (Inr \<lparr>predictions = ps\<rparr>, w))\<rparr>"

definition echo :: "(unit, string) aiplatform" where
  "echo =
     \<lparr>init = (\<lambda>project location w. (Inr (), w)),
      Endpoint = (\<lambda>name w. (Inr name, w)),
      predict = (\<lambda>endpoint xs w. (Inr \<lparr>predictions = xs\<rparr>, w))\<rparr>"

definition failing_predict :: "(unit, string) aiplatform" where
  "failing_predict =
     \<lparr>init = (\<lambda>project location w. (Inr (), w)),
      Endpoint = (\<lambda>name w. (Inr name, w)),
      predict = (\<lambda>endpoint xs w. (Inl (LibraryError ''503 unavailable''), w))\<rparr>"

definition failing_constructor :: "(unit, string) aiplatform" where
  "failing_constructor =
     \<lparr>init = (\<lambda>project location w. (Inr (), w)),
      Endpoint = (\<lambda>name w. (Inl (LibraryError ''unsupported region''), w)),
      predict = (\<lambda>endpoint xs w. (Inr \<lparr>predictions = []\<rparr>, w))\<rparr>"

text \<open>A library whose \<^verbatim>\<open>init\<close> raises unless both the project and the location are given.\<close>

definition strict_init :: "(unit, string) aiplatform" where
  "strict_init =
     \<lparr>init = (\<lambda>project location w.
               case project of
                 None \<Rightarrow> (Inl (LibraryError ''no project''), w)
               | Some p \<Rightarrow>
                   (case location of
                      None \<Rightarrow> (Inl (LibraryError ''no location''), w)
                    | Some l \<Rightarrow> (Inr (), w))),
      Endpoint = (\<lambda>name w. (Inr name, w)),
      predict = (\<lambda>endpoint xs w. (Inr \<lparr>predictions = []\<rparr>, w))\<rparr>"

text \<open>Environments: nothing set, only the region set, and both variables set.\<close>

definition unset_environ :: environ where
  "unset_environ = Map.empty"

definition region_environ :: environ where
  "region_environ = [''GCP_REGION'' \<mapsto> ''us-central1'']"

definition demo_environ :: environ where
  "demo_environ = [''GCP_PROJECT_ID'' \<mapsto> ''demo'', ''GCP_REGION'' \<mapsto> ''us-central1'']"

text \<open>The states start-up leaves under these environments with the stubs.\<close>

definition demo_state :: "unit state" where
  "demo_state =
     \<lparr>PROJECT_ID = Some ''demo'', REGION = Some ''us-central1'',
      routes = FastAPI_routes @ [(''/generate-video'', {''POST''})], world = ()\<rparr>"

definition unset_state :: "unit state" where
  "unset_state =
     \<lparr>PROJECT_ID = None, REGION = None,
      routes = FastAPI_routes @ [(''/generate-video'', {''POST''})], world = ()\<rparr>"

definition region_state :: "unit state" where
  "region_state =
     \<lparr>PROJECT_ID = None, REGION = Some ''us-central1'',
      routes = FastAPI_routes @ [(''/generate-video'', {''POST''})], world = ()\<rparr>"

section \<open>Properties\<close>

subsection \<open>Shared lemmas\<close>

text \<open>
  The template of the module has three fields and three arguments, so formatting it never
  raises, and the result is the endpoint reference of the specification.
\<close>

lemma format_endpoint:
  "format_py ''projects/{}/locations/{}/endpoints/{}'' [a, b, c] =
     Inr (endpoint_reference a b c)"
  by (simp add: endpoint_reference_def)

lemma endpoint_name_eq:
  "endpoint_name s =
     Inr (endpoint_reference (str_py (PROJECT_ID s)) (str_py (REGION s)) ''your-endpoint-id'')"
  unfolding endpoint_name_def by (rule format_endpoint)

lemma endpoint_name_with_log [simp]: "endpoint_name (with_log s log) = endpoint_name s"
  by (simp add: endpoint_name_eq with_log_def)

lemma endpoint_name_world [simp]: "endpoint_name (s\<lparr>world := w\<rparr>) = endpoint_name s"
  by (simp add: endpoint_name_eq)

lemma generate_frame:
  "snd (generate aip prompt s) = s\<lparr>world := world (snd (generate aip prompt s))\<rparr>"
  by (simp add: generate_def split: sum.splits prod.splits list.splits)

lemma generate_fields:
  "PROJECT_ID (snd (generate aip prompt s)) = PROJECT_ID s"
  "REGION (snd (generate aip prompt s)) = REGION s"
  "routes (snd (generate aip prompt s)) = routes s"
  by (simp_all add: generate_def split: sum.splits prod.splits list.splits)

lemma trace_eq:
  assumes "endpoint_name s = Inr name"
  shows "trace aip prompt s =
     EndpointCall name #
       (case fst (Endpoint aip name (world s)) of
          Inl e \<Rightarrow> []
        | Inr endpoint \<Rightarrow> [PredictCall endpoint (instances prompt)])"
  using assms
  by (simp add: trace_def log_of_def generate_def recording_def with_log_def endpoint_name_eq
      split: sum.splits prod.splits list.splits)

lemma generate_recording:
  "generate (recording aip) prompt (with_log s log) =
     (fst (generate aip prompt s),
      with_log (snd (generate aip prompt s)) (log @ trace aip prompt s))"
  by (simp add: trace_def log_of_def generate_def recording_def with_log_def endpoint_name_eq
      split: sum.splits prod.splits list.splits)

lemma post_generate_video_state:
  "snd (post_generate_video aip prompt s) = snd (generate aip prompt s)"
  by (simp add: post_generate_video_def split: sum.splits prod.splits)

lemma reachable_config:
  assumes "reachable environ aip w0 s"
  shows "PROJECT_ID s = getenv environ ''GCP_PROJECT_ID'' \<and>
         REGION s = getenv environ ''GCP_REGION'' \<and>
         routes s = FastAPI_routes @ [(''/generate-video'', {''POST''})]"
  using assms
proof (induction rule: reachable.induct)
  case (started s)
  then show ?case
    by (auto simp: startup_def Let_def split: prod.splits sum.splits)
next
  case (served s prompt r s')
  from served.hyps(2) have "s' = snd (generate aip prompt s)"
    using post_generate_video_state [of aip prompt s] by simp
  with served.IH show ?case by (simp add: generate_fields)
next
  case (outside s w)
  then show ?case by simp
qed

text \<open>The endpoint name of the demonstration state, and the payloads of an invocation.\<close>

lemma demo_name:
  "endpoint_name demo_state =
     Inr ''projects/demo/locations/us-central1/endpoints/your-endpoint-id''"
  by (simp add: endpoint_name_def demo_state_def str_py_def)

lemma payloads_trace:
  assumes "endpoint_name s = Inr name"
  shows "payloads (trace aip prompt s) =
     (case fst (Endpoint aip name (world s)) of
        Inl e \<Rightarrow> []
      | Inr endpoint \<Rightarrow> [instances prompt])"
  by (simp add: trace_eq [OF assms] split: sum.splits)

text \<open>The log of a state with a log, field by field.\<close>

lemma with_log_fields [simp]:
  "PROJECT_ID (with_log s log) = PROJECT_ID s"
  "REGION (with_log s log) = REGION s"
  "routes (with_log s log) = routes s"
  "world (with_log s log) = (world s, log)"
  "log_of (with_log s log) = log"
  by (simp_all add: with_log_def log_of_def)

text \<open>Logs of consecutive invocations concatenate, and so do their payloads.\<close>

lemma payloads_append: "payloads (xs @ ys) = payloads xs @ payloads ys"
  by (induction xs rule: payloads.induct) simp_all

text \<open>One invocation calls the constructor once, and every payload carries its own prompt.\<close>

lemma endpoint_names_trace:
  assumes "endpoint_name s = Inr name"
  shows "endpoint_names (trace aip prompt s) = [name]"
  by (simp add: trace_eq [OF assms] split: sum.splits)

lemma payloads_own_prompt:
  "\<forall>xs \<in> set (payloads (trace aip P s)). xs = [JObj [(''prompt'', JStr P)]]"
proof -
  obtain n where n: "endpoint_name s = Inr n"
    using endpoint_name_eq by blast
  show ?thesis
    by (auto simp: payloads_trace [OF n] instances_def split: sum.splits)
qed

text \<open>Start-up with the stub library, under the two environments.\<close>

lemma startup_demo: "startup demo_environ (stub ps) () = Inr demo_state"
  by (simp add: startup_def getenv_def demo_environ_def stub_def demo_state_def)

lemma startup_unset: "startup unset_environ (stub ps) () = Inr unset_state"
  by (simp add: startup_def getenv_def unset_environ_def stub_def unset_state_def)

lemma startup_region: "startup region_environ (stub ps) () = Inr region_state"
  by (simp add: startup_def getenv_def region_environ_def stub_def region_state_def)

subsection \<open>Success\<close>

text \<open>
  Claim C1. For a non-empty prompt \<open>P\<close>, when the predict call the handler makes returns a
  response whose predictions are \<open>[U]\<close>, the handler returns the dictionary
  \<^verbatim>\<open>{"video_url": U}\<close>, and the route answers 200 with that dictionary as its body.
\<close>

theorem generate_returns_first_prediction:
  assumes "P \<noteq> []"
    and "endpoint_name s = Inr name"
    and "Endpoint aip name (world s) = (Inr ep, w1)"
    and "predict aip ep [JObj [(''prompt'', JStr P)]] w1 = (Inr resp, w2)"
    and "predictions resp = [U]"
  shows "fst (generate aip P s) = Inr (JObj [(''video_url'', U)]) \<and>
         fst (post_generate_video aip P s) =
           \<lparr>status = 200, body = JObj [(''video_url'', U)]\<rparr>"
  using assms by (simp add: generate_def post_generate_video_def instances_def)

theorem generate_returns_first_prediction_witness:
  "fst (generate (stub [JStr ''https://example.com/v1.mp4'']) ''a cat surfing'' demo_state) =
     Inr (JObj [(''video_url'', JStr ''https://example.com/v1.mp4'')]) \<and>
   fst (post_generate_video (stub [JStr ''https://example.com/v1.mp4'']) ''a cat surfing''
          demo_state) =
     \<lparr>status = 200, body = JObj [(''video_url'', JStr ''https://example.com/v1.mp4'')]\<rparr>"
proof -
  let ?aip = "stub [JStr ''https://example.com/v1.mp4'']"
  have 1: "''a cat surfing'' \<noteq> []" by simp
  have 2: "endpoint_name demo_state =
             Inr ''projects/demo/locations/us-central1/endpoints/your-endpoint-id''"
    by (simp add: endpoint_name_def demo_state_def str_py_def)
  have 3: "Endpoint ?aip ''projects/demo/locations/us-central1/endpoints/your-endpoint-id''
             (world demo_state) =
           (Inr ''projects/demo/locations/us-central1/endpoints/your-endpoint-id'', ())"
    by (simp add: stub_def)
  have 4: "predict ?aip ''projects/demo/locations/us-central1/endpoints/your-endpoint-id''
             [JObj [(''prompt'', JStr ''a cat surfing'')]] () =
           (Inr \<lparr>predictions = [JStr ''https://example.com/v1.mp4'']\<rparr>, ())"
    by (simp add: stub_def)
  have 5: "predictions \<lparr>predictions = [JStr ''https://example.com/v1.mp4'']\<rparr> =
             [JStr ''https://example.com/v1.mp4'']"
    by simp
  show ?thesis
    by (rule generate_returns_first_prediction [OF 1 2 3 4 5])
qed

subsection \<open>The payload\<close>

text \<open>
  Claim C2. For every prompt \<open>P\<close>, every payload the handler submits to predict is the
  one-element list \<^verbatim>\<open>[{"prompt": P}]\<close>; and when the constructor returns an endpoint object,
  exactly that payload is submitted, once.
\<close>

theorem predict_payload_is_prompt:
  "(\<forall>xs \<in> set (payloads (trace aip P s)). xs = [JObj [(''prompt'', JStr P)]]) \<and>
   (endpoint_name s = Inr name \<and> Endpoint aip name (world s) = (Inr ep, w1) \<longrightarrow>
      payloads (trace aip P s) = [[JObj [(''prompt'', JStr P)]]])"
proof -
  obtain n where n: "endpoint_name s = Inr n"
    using endpoint_name_eq by blast
  show ?thesis
    using n by (auto simp: payloads_trace [OF n] instances_def split: sum.splits)
qed

theorem predict_payload_is_prompt_witness:
  "payloads (trace (stub [JStr ''https://example.com/v1.mp4'']) ''a cat surfing'' demo_state) =
     [[JObj [(''prompt'', JStr ''a cat surfing'')]]]"
proof -
  have 2: "Endpoint (stub [JStr ''https://example.com/v1.mp4''])
             ''projects/demo/locations/us-central1/endpoints/your-endpoint-id''
             (world demo_state) =
           (Inr ''projects/demo/locations/us-central1/endpoints/your-endpoint-id'', ())"
    by (simp add: stub_def)
  from predict_payload_is_prompt
    [of "stub [JStr ''https://example.com/v1.mp4'']" "''a cat surfing''" demo_state
        "''projects/demo/locations/us-central1/endpoints/your-endpoint-id''"
        "''projects/demo/locations/us-central1/endpoints/your-endpoint-id''" "()"]
    demo_name 2
  show ?thesis by blast
qed

subsection \<open>Failures\<close>

text \<open>
  Claim C3. When the predict call returns an empty predictions list, \<^verbatim>\<open>predictions[0]\<close>
  raises \<open>IndexError\<close> out of the handler; the route answers with the error status 500, and
  the process goes on from a state that differs from the one before only in the outside
  world.
\<close>

theorem empty_predictions_error:
  assumes "endpoint_name s = Inr name"
    and "Endpoint aip name (world s) = (Inr ep, w1)"
    and "predict aip ep [JObj [(''prompt'', JStr P)]] w1 = (Inr resp, w2)"
    and "predictions resp = []"
  shows "generate aip P s = (Inl IndexError, s\<lparr>world := w2\<rparr>) \<and>
         post_generate_video aip P s =
           (\<lparr>status = 500, body = JStr ''Internal Server Error''\<rparr>, s\<lparr>world := w2\<rparr>)"
  using assms by (simp add: generate_def post_generate_video_def instances_def)

theorem empty_predictions_error_witness:
  "generate (stub []) ''a cat surfing'' demo_state = (Inl IndexError, demo_state) \<and>
   post_generate_video (stub []) ''a cat surfing'' demo_state =
     (\<lparr>status = 500, body = JStr ''Internal Server Error''\<rparr>, demo_state)"
proof -
  have 2: "Endpoint (stub []) ''projects/demo/locations/us-central1/endpoints/your-endpoint-id''
             (world demo_state) =
           (Inr ''projects/demo/locations/us-central1/endpoints/your-endpoint-id'', ())"
    by (simp add: stub_def)
  have 3: "predict (stub []) ''projects/demo/locations/us-central1/endpoints/your-endpoint-id''
             [JObj [(''prompt'', JStr ''a cat surfing'')]] () =
           (Inr \<lparr>predictions = []\<rparr>, ())"
    by (simp add: stub_def)
  have 4: "predictions \<lparr>predictions = []\<rparr> = []"
    by simp
  have 5: "demo_state\<lparr>world := ()\<rparr> = demo_state"
    by simp
  show ?thesis
    using empty_predictions_error [OF demo_name 2 3 4] by (simp only: 5)
qed

subsection \<open>The endpoint reference\<close>

text \<open>
  Claim C4. In every state the service can reach, whatever the prompt, the one name the
  handler gives to the constructor is the endpoint reference of the specification, built
  from the project and region that start-up read from the environment and the literal
  \<^verbatim>\<open>your-endpoint-id\<close>. A variable that was not set is \<^verbatim>\<open>None\<close>, which \<^verbatim>\<open>format\<close> writes as the
  text \<^verbatim>\<open>None\<close>; with both variables set, their values stand in the reference as they are.
\<close>

theorem endpoint_reference_fixed:
  assumes "reachable environ aip w0 s"
  shows "endpoint_names (trace aip P s) =
           [endpoint_reference (str_py (getenv environ ''GCP_PROJECT_ID''))
              (str_py (getenv environ ''GCP_REGION'')) ''your-endpoint-id''] \<and>
         (getenv environ ''GCP_PROJECT_ID'' = Some project \<and>
          getenv environ ''GCP_REGION'' = Some region \<longrightarrow>
            endpoint_names (trace aip P s) =
              [endpoint_reference project region ''your-endpoint-id''])"
proof -
  from reachable_config [OF assms]
  have "endpoint_name s =
          Inr (endpoint_reference (str_py (getenv environ ''GCP_PROJECT_ID''))
                 (str_py (getenv environ ''GCP_REGION'')) ''your-endpoint-id'')"
    by (simp add: endpoint_name_eq)
  then have "endpoint_names (trace aip P s) =
          [endpoint_reference (str_py (getenv environ ''GCP_PROJECT_ID''))
             (str_py (getenv environ ''GCP_REGION'')) ''your-endpoint-id'']"
    by (rule endpoint_names_trace)
  then show ?thesis
    by (auto simp: str_py_def)
qed

theorem endpoint_reference_fixed_witness:
  "endpoint_names
     (trace (stub [JStr ''https://example.com/v1.mp4'']) ''a cat surfing''
        (snd (post_generate_video (stub [JStr ''https://example.com/v1.mp4''])
                ''a dog skating'' demo_state))) =
     [''projects/demo/locations/us-central1/endpoints/your-endpoint-id'']"
proof -
  let ?aip = "stub [JStr ''https://example.com/v1.mp4'']"
  have 1: "reachable demo_environ ?aip () demo_state"
    by (rule reachable.started) (rule startup_demo)
  have 2: "reachable demo_environ ?aip ()
             (snd (post_generate_video ?aip ''a dog skating'' demo_state))"
    by (rule reachable.served [OF 1]) (rule prod.collapse [symmetric])
  have 3: "getenv demo_environ ''GCP_PROJECT_ID'' = Some ''demo''"
    by (simp add: getenv_def demo_environ_def)
  have 4: "getenv demo_environ ''GCP_REGION'' = Some ''us-central1''"
    by (simp add: getenv_def demo_environ_def)
  from endpoint_reference_fixed [OF 2, of "''a cat surfing''" "''demo''" "''us-central1''"] 3 4
  show ?thesis
    by (simp add: endpoint_reference_def str_py_def)
qed

subsection \<open>Statelessness\<close>

text \<open>
  Claim C5. Two invocations in a row, with prompts \<open>P1\<close> and \<open>P2\<close>, observed through the
  recording stub: neither changes \<^verbatim>\<open>PROJECT_ID\<close>, \<^verbatim>\<open>REGION\<close> or the routes; the payloads
  recorded during the first carry only \<open>P1\<close>, those recorded during the second only \<open>P2\<close>;
  the second invocation is the one the handler would make from its initial state in the
  outside world the first one left; and when both constructor calls return, the payloads
  are \<^verbatim>\<open>[{"prompt": P1}]\<close> then \<^verbatim>\<open>[{"prompt": P2}]\<close>, so nothing is served from a cache.
\<close>

theorem handler_stateless:
  assumes "generate (recording aip) P1 (with_log s []) = (r1, s1)"
    and "generate (recording aip) P2 s1 = (r2, s2)"
  shows "PROJECT_ID s1 = PROJECT_ID s \<and> REGION s1 = REGION s \<and> routes s1 = routes s \<and>
         PROJECT_ID s2 = PROJECT_ID s \<and> REGION s2 = REGION s \<and> routes s2 = routes s \<and>
         (\<forall>xs \<in> set (payloads (log_of s1)). xs = [JObj [(''prompt'', JStr P1)]]) \<and>
         (\<exists>t2. log_of s2 = log_of s1 @ t2 \<and>
               (\<forall>xs \<in> set (payloads t2). xs = [JObj [(''prompt'', JStr P2)]])) \<and>
         (r2, s2) =
            generate (recording aip) P2 (with_log (s\<lparr>world := fst (world s1)\<rparr>) (log_of s1)) \<and>
         (endpoint_name s = Inr name \<and>
          \<not> isl (fst (Endpoint aip name (world s))) \<and>
          \<not> isl (fst (Endpoint aip name (fst (world s1)))) \<longrightarrow>
            payloads (log_of s2) =
              [[JObj [(''prompt'', JStr P1)]], [JObj [(''prompt'', JStr P2)]]])"
proof -
  let ?m = "snd (generate aip P1 s)"
  have s1: "s1 = with_log ?m (trace aip P1 s)"
    using assms(1) by (simp add: generate_recording)
  have m: "?m = s\<lparr>world := world ?m\<rparr>"
    by (rule generate_frame)
  have w1: "fst (world s1) = world ?m"
    by (simp add: s1)
  have l1: "log_of s1 = trace aip P1 s"
    by (simp add: s1)
  have s1': "s1 = with_log (s\<lparr>world := fst (world s1)\<rparr>) (log_of s1)"
    using m by (simp add: s1)
  have s2: "s2 = with_log (snd (generate aip P2 ?m)) (trace aip P1 s @ trace aip P2 ?m)"
    using assms(2) by (simp add: s1 generate_recording)
  have l2: "log_of s2 = log_of s1 @ trace aip P2 ?m"
    by (simp add: s2 l1)
  have cfg1: "PROJECT_ID s1 = PROJECT_ID s \<and> REGION s1 = REGION s \<and> routes s1 = routes s"
    by (simp add: s1 generate_fields)
  have cfg2: "PROJECT_ID s2 = PROJECT_ID s \<and> REGION s2 = REGION s \<and> routes s2 = routes s"
    by (simp add: s2 generate_fields)
  have p1: "\<forall>xs \<in> set (payloads (log_of s1)). xs = [JObj [(''prompt'', JStr P1)]]"
    unfolding l1 by (rule payloads_own_prompt)
  have p2: "\<exists>t2. log_of s2 = log_of s1 @ t2 \<and>
               (\<forall>xs \<in> set (payloads t2). xs = [JObj [(''prompt'', JStr P2)]])"
    using l2 payloads_own_prompt by blast
  have same: "(r2, s2) =
      generate (recording aip) P2 (with_log (s\<lparr>world := fst (world s1)\<rparr>) (log_of s1))"
    using assms(2) s1' by simp
  have both: "payloads (log_of s2) =
      [[JObj [(''prompt'', JStr P1)]], [JObj [(''prompt'', JStr P2)]]]"
    if n: "endpoint_name s = Inr name"
      and c1: "\<not> isl (fst (Endpoint aip name (world s)))"
      and c2: "\<not> isl (fst (Endpoint aip name (fst (world s1))))"
  proof -
    have n': "endpoint_name ?m = Inr name"
      using n m by (metis endpoint_name_world)
    have a: "payloads (trace aip P1 s) = [[JObj [(''prompt'', JStr P1)]]]"
      using c1 by (auto simp: payloads_trace [OF n] instances_def split: sum.splits)
    have b: "payloads (trace aip P2 ?m) = [[JObj [(''prompt'', JStr P2)]]]"
      using c2 by (auto simp: payloads_trace [OF n'] w1 instances_def split: sum.splits)
    show ?thesis
      by (simp add: l2 l1 payloads_append a b)
  qed
  from cfg1 cfg2 p1 p2 same both show ?thesis
    by blast
qed

theorem handler_stateless_witness:
  "payloads (log_of (snd (generate (recording echo) ''a dog skating''
      (snd (generate (recording echo) ''a cat surfing'' (with_log demo_state [])))))) =
     [[JObj [(''prompt'', JStr ''a cat surfing'')]],
      [JObj [(''prompt'', JStr ''a dog skating'')]]]"
proof -
  let ?run1 = "generate (recording echo) ''a cat surfing'' (with_log demo_state [])"
  let ?run2 = "generate (recording echo) ''a dog skating'' (snd ?run1)"
  have 1: "?run1 = (fst ?run1, snd ?run1)" by simp
  have 2: "?run2 = (fst ?run2, snd ?run2)" by simp
  have 3: "\<not> isl (fst (Endpoint echo
             ''projects/demo/locations/us-central1/endpoints/your-endpoint-id'' w))" for w
    by (simp add: echo_def)
  from handler_stateless [OF 1 2] demo_name 3 show ?thesis
    by blast
qed

subsection \<open>Failure of the remote call\<close>

text \<open>
  Claim C6. When the predict call raises \<open>e\<close>, the handler raises the same \<open>e\<close> (it returns
  no value in its place); the route answers with the error status 500, and the process goes
  on from a state that differs from the one before only in the outside world.
\<close>

theorem predict_failure_surfaced:
  assumes "endpoint_name s = Inr name"
    and "Endpoint aip name (world s) = (Inr ep, w1)"
    and "predict aip ep [JObj [(''prompt'', JStr P)]] w1 = (Inl e, w2)"
  shows "generate aip P s = (Inl e, s\<lparr>world := w2\<rparr>) \<and>
         post_generate_video aip P s =
           (\<lparr>status = 500, body = JStr ''Internal Server Error''\<rparr>, s\<lparr>world := w2\<rparr>)"
  using assms by (simp add: generate_def post_generate_video_def instances_def)

theorem predict_failure_surfaced_witness:
  "generate failing_predict ''a cat surfing'' demo_state =
     (Inl (LibraryError ''503 unavailable''), demo_state) \<and>
   post_generate_video failing_predict ''a cat surfing'' demo_state =
     (\<lparr>status = 500, body = JStr ''Internal Server Error''\<rparr>, demo_state)"
proof -
  have 2: "Endpoint failing_predict
             ''projects/demo/locations/us-central1/endpoints/your-endpoint-id''
             (world demo_state) =
           (Inr ''projects/demo/locations/us-central1/endpoints/your-endpoint-id'', ())"
    by (simp add: failing_predict_def)
  have 3: "predict failing_predict
             ''projects/demo/locations/us-central1/endpoints/your-endpoint-id''
             [JObj [(''prompt'', JStr ''a cat surfing'')]] () =
           (Inl (LibraryError ''503 unavailable''), ())"
    by (simp add: failing_predict_def)
  have 5: "demo_state\<lparr>world := ()\<rparr> = demo_state"
    by simp
  show ?thesis
    using predict_failure_surfaced [OF demo_name 2 3] by (simp only: 5)
qed

subsection \<open>Configuration at start-up\<close>

text \<open>
  Claim C7, as amended. The module checks neither the project nor the region: start-up
  fails exactly when \<^verbatim>\<open>aiplatform.init\<close> raises. In every state the service reaches after a
  start-up that did not fail, also with a variable that is not set, \<^verbatim>\<open>PROJECT_ID\<close> and
  \<^verbatim>\<open>REGION\<close> hold what the environment gave (\<^verbatim>\<open>None\<close> for a variable that is not set), the
  route of the handler is among the routes, and a request with any prompt is handled: the
  handler calls the constructor with the endpoint reference, in which the text \<^verbatim>\<open>None\<close> stands
  in the position of a variable that is not set, and when the predict call returns
  predictions with a first element the route answers 200 with it.
\<close>

theorem unchecked_configuration_is_served:
  "isl (startup environ aip w) =
     isl (fst (init aip (getenv environ ''GCP_PROJECT_ID'') (getenv environ ''GCP_REGION'') w)) \<and>
   (startup environ aip w = Inr s \<longrightarrow> reachable environ aip w s) \<and>
   (reachable environ aip w s \<longrightarrow>
      PROJECT_ID s = getenv environ ''GCP_PROJECT_ID'' \<and>
      REGION s = getenv environ ''GCP_REGION'' \<and>
      (''/generate-video'', {''POST''}) \<in> set (routes s) \<and>
      endpoint_names (trace aip P s) =
        [endpoint_reference (str_py (getenv environ ''GCP_PROJECT_ID''))
           (str_py (getenv environ ''GCP_REGION'')) ''your-endpoint-id''] \<and>
      (getenv environ ''GCP_PROJECT_ID'' = None \<longrightarrow>
         endpoint_names (trace aip P s) =
           [endpoint_reference ''None'' (str_py (getenv environ ''GCP_REGION''))
              ''your-endpoint-id'']) \<and>
      (getenv environ ''GCP_REGION'' = None \<longrightarrow>
         endpoint_names (trace aip P s) =
           [endpoint_reference (str_py (getenv environ ''GCP_PROJECT_ID'')) ''None''
              ''your-endpoint-id'']) \<and>
      (endpoint_name s = Inr name \<and>
       Endpoint aip name (world s) = (Inr ep, w1) \<and>
       predict aip ep [JObj [(''prompt'', JStr P)]] w1 = (Inr resp, w2) \<and>
       predictions resp = p # ps \<longrightarrow>
         post_generate_video aip P s =
           (\<lparr>status = 200, body = JObj [(''video_url'', p)]\<rparr>, s\<lparr>world := w2\<rparr>)))"
proof -
  let ?project = "getenv environ ''GCP_PROJECT_ID''"
  let ?region = "getenv environ ''GCP_REGION''"
  have fails: "isl (startup environ aip w) = isl (fst (init aip ?project ?region w))"
  proof (cases "init aip ?project ?region w")
    case (Pair r w')
    then show ?thesis
      by (cases r) (simp_all add: startup_def Let_def)
  qed
  have started: "reachable environ aip w s" if "startup environ aip w = Inr s"
    using that by (rule reachable.started)
  have running:
    "PROJECT_ID s = ?project \<and> REGION s = ?region \<and>
     (''/generate-video'', {''POST''}) \<in> set (routes s) \<and>
     endpoint_names (trace aip P s) =
       [endpoint_reference (str_py ?project) (str_py ?region) ''your-endpoint-id''] \<and>
     (?project = None \<longrightarrow>
        endpoint_names (trace aip P s) =
          [endpoint_reference ''None'' (str_py ?region) ''your-endpoint-id'']) \<and>
     (?region = None \<longrightarrow>
        endpoint_names (trace aip P s) =
          [endpoint_reference (str_py ?project) ''None'' ''your-endpoint-id''])"
    if r: "reachable environ aip w s"
  proof -
    from reachable_config [OF r]
    have cfg: "PROJECT_ID s = ?project" "REGION s = ?region"
      and rts: "routes s = FastAPI_routes @ [(''/generate-video'', {''POST''})]"
      by simp_all
    have route: "(''/generate-video'', {''POST''}) \<in> set (routes s)"
      by (simp add: rts)
    have "endpoint_name s =
            Inr (endpoint_reference (str_py ?project) (str_py ?region) ''your-endpoint-id'')"
      by (simp add: endpoint_name_eq cfg)
    then have names: "endpoint_names (trace aip P s) =
            [endpoint_reference (str_py ?project) (str_py ?region) ''your-endpoint-id'']"
      by (rule endpoint_names_trace)
    have none: "str_py None = ''None''"
      by (simp add: str_py_def)
    from cfg route names none show ?thesis
      by metis
  qed
  have answered:
    "post_generate_video aip P s =
       (\<lparr>status = 200, body = JObj [(''video_url'', p)]\<rparr>, s\<lparr>world := w2\<rparr>)"
    if "endpoint_name s = Inr name"
      and "Endpoint aip name (world s) = (Inr ep, w1)"
      and "predict aip ep [JObj [(''prompt'', JStr P)]] w1 = (Inr resp, w2)"
      and "predictions resp = p # ps"
    using that by (simp add: post_generate_video_def generate_def instances_def)
  from fails started running answered show ?thesis
    by blast
qed

theorem unchecked_configuration_is_served_witness:
  "isl (startup region_environ strict_init ()) \<and>
   \<not> isl (startup region_environ (stub [JStr ''https://example.com/v1.mp4'']) ()) \<and>
   PROJECT_ID region_state = None \<and>
   REGION region_state = Some ''us-central1'' \<and>
   (''/generate-video'', {''POST''}) \<in> set (routes region_state) \<and>
   endpoint_names
     (trace (stub [JStr ''https://example.com/v1.mp4'']) ''a cat surfing'' region_state) =
     [''projects/None/locations/us-central1/endpoints/your-endpoint-id''] \<and>
   post_generate_video (stub [JStr ''https://example.com/v1.mp4'']) ''a cat surfing''
       region_state =
     (\<lparr>status = 200, body = JObj [(''video_url'', JStr ''https://example.com/v1.mp4'')]\<rparr>,
      region_state)"
proof -
  let ?aip = "stub [JStr ''https://example.com/v1.mp4'']"
  let ?name = "''projects/None/locations/us-central1/endpoints/your-endpoint-id''"
  have p: "getenv region_environ ''GCP_PROJECT_ID'' = None"
    by (simp add: getenv_def region_environ_def)
  have r: "getenv region_environ ''GCP_REGION'' = Some ''us-central1''"
    by (simp add: getenv_def region_environ_def)
  have strict: "isl (fst (init strict_init None (Some ''us-central1'') ()))"
    by (simp add: strict_init_def)
  have lax: "\<not> isl (fst (init ?aip None (Some ''us-central1'') ()))"
    by (simp add: stub_def)
  have st: "startup region_environ ?aip () = Inr region_state"
    by (rule startup_region)
  have n: "endpoint_name region_state = Inr ?name"
    by (simp add: endpoint_name_def region_state_def str_py_def)
  have c: "Endpoint ?aip ?name (world region_state) = (Inr ?name, ())"
    by (simp add: stub_def)
  have q: "predict ?aip ?name [JObj [(''prompt'', JStr ''a cat surfing'')]] () =
             (Inr \<lparr>predictions = [JStr ''https://example.com/v1.mp4'']\<rparr>, ())"
    by (simp add: stub_def)
  have f: "predictions \<lparr>predictions = [JStr ''https://example.com/v1.mp4'']\<rparr> =
             JStr ''https://example.com/v1.mp4'' # []"
    by simp
  have u: "region_state\<lparr>world := ()\<rparr> = region_state"
    by simp
  have ref: "endpoint_reference ''None'' (str_py (Some ''us-central1'')) ''your-endpoint-id'' =
               ?name"
    by (simp add: endpoint_reference_def str_py_def)
  have 1: "isl (startup region_environ strict_init ())"
    using unchecked_configuration_is_served [of region_environ strict_init "()"] strict
    by (simp add: p r)
  note served = unchecked_configuration_is_served
    [of region_environ ?aip "()" region_state "''a cat surfing''" ?name ?name "()"
        "\<lparr>predictions = [JStr ''https://example.com/v1.mp4'']\<rparr>" "()"
        "JStr ''https://example.com/v1.mp4''" "[]"]
  from served
  have "isl (startup region_environ ?aip ()) =
          isl (fst (init ?aip (getenv region_environ ''GCP_PROJECT_ID'')
                      (getenv region_environ ''GCP_REGION'') ()))"
    by blast
  with lax have 2: "\<not> isl (startup region_environ ?aip ())"
    by (simp add: p r)
  from served st have reach: "reachable region_environ ?aip () region_state"
    by blast
  from served reach
  have "PROJECT_ID region_state = getenv region_environ ''GCP_PROJECT_ID''"
    and "REGION region_state = getenv region_environ ''GCP_REGION''"
    and 5: "(''/generate-video'', {''POST''}) \<in> set (routes region_state)"
    by blast+
  then have 3: "PROJECT_ID region_state = None"
    and 4: "REGION region_state = Some ''us-central1''"
    by (simp_all add: p r)
  from served reach p
  have "endpoint_names (trace ?aip ''a cat surfing'' region_state) =
          [endpoint_reference ''None'' (str_py (getenv region_environ ''GCP_REGION''))
             ''your-endpoint-id'']"
    by blast
  then have 6: "endpoint_names (trace ?aip ''a cat surfing'' region_state) = [?name]"
    by (simp only: r ref)
  from served reach n c q f
  have "post_generate_video ?aip ''a cat surfing'' region_state =
          (\<lparr>status = 200, body = JObj [(''video_url'', JStr ''https://example.com/v1.mp4'')]\<rparr>,
           region_state\<lparr>world := ()\<rparr>)"
    by blast
  then have 7: "post_generate_video ?aip ''a cat surfing'' region_state =
          (\<lparr>status = 200, body = JObj [(''video_url'', JStr ''https://example.com/v1.mp4'')]\<rparr>,
           region_state)"
    by (simp only: u)
  from 1 2 3 4 5 6 7 show ?thesis
    by blast
qed

text \<open>
  The claim as first stated, that an unresolved project or region keeps the service from
  accepting traffic, fails: with neither variable set and a library whose \<^verbatim>\<open>init\<close> accepts
  \<^verbatim>\<open>None\<close>, start-up succeeds and a request is answered 200, the endpoint name carrying the
  text \<^verbatim>\<open>None\<close> twice.
\<close>

theorem unset_configuration_serves:
  "getenv unset_environ ''GCP_PROJECT_ID'' = None \<and>
   getenv unset_environ ''GCP_REGION'' = None \<and>
   startup unset_environ (stub [JStr ''https://example.com/v1.mp4'']) () = Inr unset_state \<and>
   post_generate_video (stub [JStr ''https://example.com/v1.mp4'']) ''a cat surfing''
       unset_state =
     (\<lparr>status = 200, body = JObj [(''video_url'', JStr ''https://example.com/v1.mp4'')]\<rparr>,
      unset_state) \<and>
   endpoint_names (trace (stub [JStr ''https://example.com/v1.mp4'']) ''a cat surfing''
       unset_state) =
     [''projects/None/locations/None/endpoints/your-endpoint-id'']"
proof -
  have n: "endpoint_name unset_state =
             Inr ''projects/None/locations/None/endpoints/your-endpoint-id''"
    by (simp add: endpoint_name_def unset_state_def str_py_def)
  have 1: "getenv unset_environ ''GCP_PROJECT_ID'' = None"
    by (simp add: getenv_def unset_environ_def)
  have 2: "getenv unset_environ ''GCP_REGION'' = None"
    by (simp add: getenv_def unset_environ_def)
  have 3: "post_generate_video (stub [JStr ''https://example.com/v1.mp4'']) ''a cat surfing''
       unset_state =
     (\<lparr>status = 200, body = JObj [(''video_url'', JStr ''https://example.com/v1.mp4'')]\<rparr>,
      unset_state)"
    by (simp add: post_generate_video_def generate_def n stub_def)
  show ?thesis
    using 1 2 3 startup_unset endpoint_names_trace [OF n] by blast
qed

subsection \<open>Effects of an invocation\<close>

text \<open>
  Claim C8, as amended. An invocation makes at most one predict call: the constructor call
  followed by exactly one predict call when the constructor returns, the constructor call
  alone when it raises. It never calls \<^verbatim>\<open>init\<close>, and it leaves \<^verbatim>\<open>PROJECT_ID\<close>, \<^verbatim>\<open>REGION\<close> and the
  routes as they were.
\<close>

theorem at_most_one_predict_no_local_effects:
  "length (payloads (trace aip P s)) \<le> 1 \<and>
   (endpoint_name s = Inr name \<and> Endpoint aip name (world s) = (Inr ep, w1) \<longrightarrow>
      trace aip P s = [EndpointCall name, PredictCall ep [JObj [(''prompt'', JStr P)]]]) \<and>
   (endpoint_name s = Inr name \<and> Endpoint aip name (world s) = (Inl e, w1) \<longrightarrow>
      trace aip P s = [EndpointCall name]) \<and>
   PROJECT_ID (snd (generate aip P s)) = PROJECT_ID s \<and>
   REGION (snd (generate aip P s)) = REGION s \<and>
   routes (snd (generate aip P s)) = routes s"
proof -
  obtain n where n: "endpoint_name s = Inr n"
    using endpoint_name_eq by blast
  have "length (payloads (trace aip P s)) \<le> 1"
    by (simp add: payloads_trace [OF n] split: sum.splits)
  moreover have "trace aip P s = [EndpointCall name, PredictCall ep [JObj [(''prompt'', JStr P)]]]"
    if "endpoint_name s = Inr name" and "Endpoint aip name (world s) = (Inr ep, w1)"
    using that by (simp add: trace_eq instances_def)
  moreover have "trace aip P s = [EndpointCall name]"
    if "endpoint_name s = Inr name" and "Endpoint aip name (world s) = (Inl e, w1)"
    using that by (simp add: trace_eq)
  ultimately show ?thesis
    by (simp add: generate_fields)
qed

theorem at_most_one_predict_no_local_effects_witness:
  "trace (stub [JStr ''https://example.com/v1.mp4'']) ''a cat surfing'' demo_state =
     [EndpointCall ''projects/demo/locations/us-central1/endpoints/your-endpoint-id'',
      PredictCall ''projects/demo/locations/us-central1/endpoints/your-endpoint-id''
        [JObj [(''prompt'', JStr ''a cat surfing'')]]] \<and>
   PROJECT_ID (snd (generate (stub [JStr ''https://example.com/v1.mp4'']) ''a cat surfing''
      demo_state)) = Some ''demo''"
proof -
  have 2: "Endpoint (stub [JStr ''https://example.com/v1.mp4''])
             ''projects/demo/locations/us-central1/endpoints/your-endpoint-id''
             (world demo_state) =
           (Inr ''projects/demo/locations/us-central1/endpoints/your-endpoint-id'', ())"
    by (simp add: stub_def)
  have 3: "PROJECT_ID demo_state = Some ''demo''"
    by (simp add: demo_state_def)
  from at_most_one_predict_no_local_effects
    [of "stub [JStr ''https://example.com/v1.mp4'']" "''a cat surfing''" demo_state
        "''projects/demo/locations/us-central1/endpoints/your-endpoint-id''"
        "''projects/demo/locations/us-central1/endpoints/your-endpoint-id''" "()"]
    demo_name 2 3
  show ?thesis by simp
qed

text \<open>
  The claim as first stated, exactly one predict call on every invocation, fails when the
  constructor raises: the handler is left before line 18 and no predict call is made.
\<close>

theorem constructor_failure_no_predict:
  "length (payloads (trace failing_constructor ''a cat surfing'' demo_state)) = 0 \<and>
   fst (generate failing_constructor ''a cat surfing'' demo_state) =
     Inl (LibraryError ''unsupported region'')"
proof -
  have "payloads (trace failing_constructor ''a cat surfing'' demo_state) = []"
    by (simp add: payloads_trace [OF demo_name] failing_constructor_def)
  moreover have "fst (generate failing_constructor ''a cat surfing'' demo_state) =
     Inl (LibraryError ''unsupported region'')"
    by (simp add: generate_def demo_name failing_constructor_def)
  ultimately show ?thesis by simp
qed

subsection \<open>No validation of the prompt\<close>

text \<open>
  Claim C9. For every prompt \<open>P\<close>, the empty string included, once the constructor has
  returned the handler submits \<^verbatim>\<open>[{"prompt": P}]\<close> and its outcome is the one the predict call
  dictates: the exception of predict, \<open>IndexError\<close> for empty predictions, or the dictionary
  with the first prediction. The route answers 200 or 500, never a 4xx.
\<close>

theorem no_prompt_validation:
  assumes "endpoint_name s = Inr name"
    and "Endpoint aip name (world s) = (Inr ep, w1)"
  shows "payloads (trace aip P s) = [[JObj [(''prompt'', JStr P)]]] \<and>
         fst (generate aip P s) =
           (case fst (predict aip ep [JObj [(''prompt'', JStr P)]] w1) of
              Inl e \<Rightarrow> Inl e
            | Inr resp \<Rightarrow>
                (case predictions resp of
                   [] \<Rightarrow> Inl IndexError
                 | p # ps \<Rightarrow> Inr (JObj [(''video_url'', p)]))) \<and>
         (status (fst (post_generate_video aip P s)) = 200 \<or>
          status (fst (post_generate_video aip P s)) = 500)"
proof -
  have a: "payloads (trace aip P s) = [[JObj [(''prompt'', JStr P)]]]"
    using assms by (simp add: payloads_trace instances_def)
  have b: "fst (generate aip P s) =
           (case fst (predict aip ep [JObj [(''prompt'', JStr P)]] w1) of
              Inl e \<Rightarrow> Inl e
            | Inr resp \<Rightarrow>
                (case predictions resp of
                   [] \<Rightarrow> Inl IndexError
                 | p # ps \<Rightarrow> Inr (JObj [(''video_url'', p)])))"
    using assms
    by (simp add: generate_def instances_def split: sum.splits prod.splits list.splits)
  have c: "status (fst (post_generate_video aip P s)) = 200 \<or>
           status (fst (post_generate_video aip P s)) = 500"
    by (simp add: post_generate_video_def split: sum.splits prod.splits)
  from a b c show ?thesis by blast
qed

theorem no_prompt_validation_witness:
  "payloads (trace (stub [JStr ''https://example.com/v1.mp4'']) '''' demo_state) =
     [[JObj [(''prompt'', JStr '''')]]] \<and>
   fst (generate (stub [JStr ''https://example.com/v1.mp4'']) '''' demo_state) =
     Inr (JObj [(''video_url'', JStr ''https://example.com/v1.mp4'')])"
proof -
  have 2: "Endpoint (stub [JStr ''https://example.com/v1.mp4''])
             ''projects/demo/locations/us-central1/endpoints/your-endpoint-id''
             (world demo_state) =
           (Inr ''projects/demo/locations/us-central1/endpoints/your-endpoint-id'', ())"
    by (simp add: stub_def)
  have 3: "predict (stub [JStr ''https://example.com/v1.mp4''])
             ''projects/demo/locations/us-central1/endpoints/your-endpoint-id''
             [JObj [(''prompt'', JStr '''')]] () =
           (Inr \<lparr>predictions = [JStr ''https://example.com/v1.mp4'']\<rparr>, ())"
    by (simp add: stub_def)
  from no_prompt_validation [OF demo_name 2, of "''''"] show ?thesis
    by (simp add: 3)
qed

subsection \<open>What the response depends on\<close>

text \<open>
  Claim C10. Two runs, with any libraries, states and prompts, in which the predict calls
  return responses with the same first prediction \<open>u\<close>: the handler returns the same value
  in both, \<^verbatim>\<open>{"video_url": u}\<close>, and the route the same response, whatever the prompts and
  the further predictions are.
\<close>

theorem response_depends_on_first_prediction:
  assumes "endpoint_name s = Inr name"
    and "Endpoint aip name (world s) = (Inr ep, w1)"
    and "predict aip ep [JObj [(''prompt'', JStr P)]] w1 = (Inr resp, w2)"
    and "predictions resp = u # rest"
    and "endpoint_name s' = Inr name'"
    and "Endpoint aip' name' (world s') = (Inr ep', w1')"
    and "predict aip' ep' [JObj [(''prompt'', JStr P')]] w1' = (Inr resp', w2')"
    and "predictions resp' = u # rest'"
  shows "fst (generate aip P s) = fst (generate aip' P' s') \<and>
         fst (post_generate_video aip P s) = fst (post_generate_video aip' P' s') \<and>
         fst (generate aip P s) = Inr (JObj [(''video_url'', u)])"
  using assms by (simp add: generate_def post_generate_video_def instances_def)

theorem response_depends_on_first_prediction_witness:
  "fst (generate (stub [JStr ''https://example.com/v1.mp4'']) ''a cat surfing'' demo_state) =
   fst (generate (stub [JStr ''https://example.com/v1.mp4'', JNull, JNum 7]) ''a dog skating''
          unset_state)"
proof -
  have n: "endpoint_name unset_state =
             Inr ''projects/None/locations/None/endpoints/your-endpoint-id''"
    by (simp add: endpoint_name_def unset_state_def str_py_def)
  have 2: "Endpoint (stub [JStr ''https://example.com/v1.mp4''])
             ''projects/demo/locations/us-central1/endpoints/your-endpoint-id''
             (world demo_state) =
           (Inr ''projects/demo/locations/us-central1/endpoints/your-endpoint-id'', ())"
    by (simp add: stub_def)
  have 3: "predict (stub [JStr ''https://example.com/v1.mp4''])
             ''projects/demo/locations/us-central1/endpoints/your-endpoint-id''
             [JObj [(''prompt'', JStr ''a cat surfing'')]] () =
           (Inr \<lparr>predictions = [JStr ''https://example.com/v1.mp4'']\<rparr>, ())"
    by (simp add: stub_def)
  have 4: "predictions \<lparr>predictions = [JStr ''https://example.com/v1.mp4'']\<rparr> =
             JStr ''https://example.com/v1.mp4'' # []"
    by simp
  have 5: "Endpoint (stub [JStr ''https://example.com/v1.mp4'', JNull, JNum 7])
             ''projects/None/locations/None/endpoints/your-endpoint-id''
             (world unset_state) =
           (Inr ''projects/None/locations/None/endpoints/your-endpoint-id'', ())"
    by (simp add: stub_def)
  have 6: "predict (stub [JStr ''https://example.com/v1.mp4'', JNull, JNum 7])
             ''projects/None/locations/None/endpoints/your-endpoint-id''
             [JObj [(''prompt'', JStr ''a dog skating'')]] () =
           (Inr \<lparr>predictions = [JStr ''https://example.com/v1.mp4'', JNull, JNum 7]\<rparr>, ())"
    by (simp add: stub_def)
  have 7: "predictions \<lparr>predictions = [JStr ''https://example.com/v1.mp4'', JNull, JNum 7]\<rparr> =
             JStr ''https://example.com/v1.mp4'' # [JNull, JNum 7]"
    by simp
  from response_depends_on_first_prediction [OF demo_name 2 3 4 n 5 6 7]
  show ?thesis by blast
qed

end
